theory Spec2Isabelle
  imports Main "HOL-Library.AList" "HOL-Library.Sublist"
begin

section \<open>JavaScript values\<close>

text \<open>
  The request bodies are parsed JSON. A JavaScript value that came out of a body is a
  JSON value or \<open>undefined\<close> (a property the body does not have), so it is a
  \<open>json option\<close> with \<open>None\<close> for \<open>undefined\<close>. Numbers are narrowed to integers: the
  only numeric fact the handlers use is whether a number is zero.
\<close>

datatype json =
  JNull
  | JBool bool
  | JNum int
  | JStr string
  | JArr "json list"
  | JObj "(string \<times> json) list"

type_synonym jsval = "json option"

text \<open>
  \<open>req.body\<close> as \<open>express.json()\<close> leaves it: an object, read by property name.
\<close>

type_synonym req_body = "string \<Rightarrow> jsval"

text \<open>JavaScript's ToBoolean: what \<open>if (x)\<close>, \<open>!x\<close> and \<open>x || y\<close> test.\<close>

fun truthy :: "jsval \<Rightarrow> bool" where
  "truthy None = False"
| "truthy (Some JNull) = False"
| "truthy (Some (JBool b)) = b"
| "truthy (Some (JNum n)) = (n \<noteq> 0)"
| "truthy (Some (JStr s)) = (s \<noteq> [])"
| "truthy (Some (JArr xs)) = True"
| "truthy (Some (JObj kvs)) = True"

text \<open>\<open>x || d\<close>\<close>

definition or_else :: "jsval \<Rightarrow> jsval \<Rightarrow> jsval" where
  "or_else x d = (if truthy x then x else d)"

text \<open>
  A number inside a template literal, \<open>`${n}`\<close>: the decimal digits of a natural number
  (the counter starts at 1000 and only grows by one).
\<close>

fun number_toString :: "nat \<Rightarrow> string" where
  "number_toString n =
     (if n < 10 then [''0123456789'' ! n]
      else number_toString (n div 10) @ [''0123456789'' ! (n mod 10)])"

declare number_toString.simps [simp del]

text \<open>\<open>new Date().toISOString()\<close>: the reading is an input of each handler.\<close>

type_synonym timestamp = string

section \<open>The data model\<close>

text \<open>\<open>const STATUSES = {...}\<close>\<close>

definition PENDING_PICKUP :: string where "PENDING_PICKUP = ''pending_pickup''"
definition COLLECTED :: string where "COLLECTED = ''collected''"
definition IN_TRANSIT :: string where "IN_TRANSIT = ''in_transit''"
definition OUT_FOR_DELIVERY :: string where "OUT_FOR_DELIVERY = ''out_for_delivery''"
definition DELIVERED :: string where "DELIVERED = ''delivered''"
definition FAILED_DELIVERY :: string where "FAILED_DELIVERY = ''failed_delivery''"
definition RETURNED :: string where "RETURNED = ''returned''"
definition COMPLETED :: string where "COMPLETED = ''completed''"
definition CANCELLED :: string where "CANCELLED = ''cancelled''"

text \<open>\<open>Object.values(STATUSES)\<close>\<close>

definition STATUSES_values :: "string list" where
  "STATUSES_values =
     [PENDING_PICKUP, COLLECTED, IN_TRANSIT, OUT_FOR_DELIVERY, DELIVERED,
      FAILED_DELIVERY, RETURNED, COMPLETED, CANCELLED]"

text \<open>
  \<open>Object.values(STATUSES).includes(status)\<close>: true only of a string that is one of the
  nine values; the result carries that string.
\<close>

definition includes_status :: "jsval \<Rightarrow> string option" where
  "includes_status v =
     (case v of
        Some (JStr st) \<Rightarrow> if st \<in> set STATUSES_values then Some st else None
      | _ \<Rightarrow> None)"

record history_entry =
  h_status :: string
  h_timestamp :: timestamp
  h_note :: jsval

record parcel =
  tracking_number :: string
  order_id :: jsval
  customer_name :: jsval
  customer_phone :: jsval
  customer_address :: jsval
  wilaya :: jsval
  commune :: jsval
  product_list :: jsval
  price :: jsval
  cod_amount :: jsval
  status :: string
  webhook_url :: jsval
  created_at :: timestamp
  status_history :: "history_entry list"
  delivered_at :: "timestamp option"

text \<open>The body \<open>sendWebhook\<close> hands to \<open>axios.post\<close>.\<close>

record webhook_payload =
  event :: string
  wp_timestamp :: timestamp
  wp_tracking_number :: string
  wp_order_id :: jsval
  wp_status :: string
  wp_cod_amount :: jsval
  wp_delivered_at :: "timestamp option"
  wp_status_history :: "history_entry list"

text \<open>
  A running \<open>setInterval\<close>: the variables its callback closes over. \<open>i_parcel\<close> is the
  parcel object the handler looked up when the run started (a reference, not a copy).
\<close>

record interval =
  i_tracking_number :: string
  i_parcel :: nat
  statusFlow :: "string list"
  currentIndex :: nat
  cleared :: bool

text \<open>
  The process state. Parcel objects live in \<open>heap\<close> and are named by their index; the
  \<open>Map\<close> \<open>parcels\<close> binds tracking numbers to objects in insertion order
  (\<open>Map.set\<close> is \<open>AList.update\<close>, \<open>Map.get\<close> is \<open>map_of\<close>). \<open>intervals\<close> are the timers
  started so far, named by their index; \<open>webhooks\<close> are the \<open>axios.post\<close> calls made so
  far, each with its URL argument.
\<close>

record state =
  heap :: "parcel list"
  parcels :: "(string \<times> nat) list"
  parcelIdCounter :: nat
  intervals :: "interval list"
  webhooks :: "(jsval \<times> webhook_payload) list"

definition initial :: state where
  "initial = \<lparr>heap = [], parcels = [], parcelIdCounter = 1000, intervals = [], webhooks = []\<rparr>"

type_synonym response = "nat \<times> json"

section \<open>The webhook sender\<close>

text \<open>
  \<open>sendWebhook(webhookUrl, parcel)\<close> runs up to its \<open>await\<close> inside the caller: it builds
  the payload from the parcel as it is then and calls \<open>axios.post\<close>, and the payload is
  serialised before any other handler or timer callback runs. What the network does
  with the request afterwards changes no state of the program (both outcomes are only
  logged).
\<close>

definition sendWebhook :: "jsval \<Rightarrow> parcel \<Rightarrow> timestamp \<Rightarrow> state \<Rightarrow> state" where
  "sendWebhook webhookUrl p now s =
     s\<lparr>webhooks := webhooks s @
         [(webhookUrl,
           \<lparr>event = ''parcel.status.updated'',
            wp_timestamp = now,
            wp_tracking_number = tracking_number p,
            wp_order_id = order_id p,
            wp_status = status p,
            wp_cod_amount = cod_amount p,
            wp_delivered_at = delivered_at p,
            wp_status_history = status_history p\<rparr>)]\<rparr>"

section \<open>The endpoints\<close>

text \<open>
  Each handler takes the state, the request and the clock readings of its
  \<open>new Date()\<close> calls in source order, and returns the response with the new state.
\<close>

definition missing_required :: "req_body \<Rightarrow> bool" where
  "missing_required body \<longleftrightarrow>
     \<not> truthy (body ''order_id'') \<or> \<not> truthy (body ''customer_name'') \<or>
     \<not> truthy (body ''customer_phone'') \<or> \<not> truthy (body ''customer_address'') \<or>
     \<not> truthy (body ''price'')"

definition new_parcel :: "string \<Rightarrow> req_body \<Rightarrow> timestamp \<Rightarrow> timestamp \<Rightarrow> parcel" where
  "new_parcel tn body now_created now_history =
     \<lparr>tracking_number = tn,
      order_id = body ''order_id'',
      customer_name = body ''customer_name'',
      customer_phone = body ''customer_phone'',
      customer_address = body ''customer_address'',
      wilaya = or_else (body ''wilaya'') (Some (JStr ''Tlemcen'')),
      commune = or_else (body ''commune'') (Some (JStr ''Tlemcen'')),
      product_list = or_else (body ''product_list'') (Some (JArr [])),
      price = body ''price'',
      cod_amount = body ''price'',
      status = PENDING_PICKUP,
      webhook_url = body ''webhook_url'',
      created_at = now_created,
      status_history =
        [\<lparr>h_status = PENDING_PICKUP, h_timestamp = now_history,
          h_note = Some (JStr ''Parcel created and awaiting pickup'')\<rparr>],
      delivered_at = None\<rparr>"

text \<open>\<open>POST /api/v1/parcels\<close>\<close>

definition create_parcel ::
  "state \<Rightarrow> req_body \<Rightarrow> timestamp \<Rightarrow> timestamp \<Rightarrow> timestamp \<Rightarrow> response \<times> state" where
  "create_parcel s body now_created now_history now_webhook =
     (if missing_required body then
        ((400, JObj [(''success'', JBool False), (''message'', JStr ''Missing required fields'')]), s)
      else
        let tn = ''YDN'' @ number_toString (parcelIdCounter s);
            p = new_parcel tn body now_created now_history;
            s1 = s\<lparr>parcelIdCounter := parcelIdCounter s + 1,
                   heap := heap s @ [p],
                   parcels := AList.update tn (length (heap s)) (parcels s)\<rparr>;
            res = (201, JObj [(''success'', JBool True),
                              (''message'', JStr ''Parcel created successfully''),
                              (''data'', JObj [(''tracking_number'', JStr tn),
                                               (''status'', JStr (status p)),
                                               (''estimated_delivery'', JStr ''2-3 business days'')])])
        in (res, if truthy (body ''webhook_url'') then sendWebhook (body ''webhook_url'') p now_webhook s1
                 else s1))"

text \<open>\<open>JSON.stringify\<close> of an object literal leaves out the properties that are undefined.\<close>

definition obj :: "(string \<times> jsval) list \<Rightarrow> json" where
  "obj kvs = JObj (List.map_filter (\<lambda>(k, v). map_option (Pair k) v) kvs)"

definition history_json :: "history_entry list \<Rightarrow> json" where
  "history_json h =
     JArr (map (\<lambda>e. obj [(''status'', Some (JStr (h_status e))),
                           (''timestamp'', Some (JStr (h_timestamp e))),
                           (''note'', h_note e)]) h)"

definition parcel_json :: "parcel \<Rightarrow> json" where
  "parcel_json p =
     obj [(''tracking_number'', Some (JStr (tracking_number p))),
          (''order_id'', order_id p),
          (''customer_name'', customer_name p),
          (''customer_phone'', customer_phone p),
          (''customer_address'', customer_address p),
          (''wilaya'', wilaya p),
          (''commune'', commune p),
          (''product_list'', product_list p),
          (''price'', price p),
          (''cod_amount'', cod_amount p),
          (''status'', Some (JStr (status p))),
          (''webhook_url'', webhook_url p),
          (''created_at'', Some (JStr (created_at p))),
          (''status_history'', Some (history_json (status_history p))),
          (''delivered_at'', map_option JStr (delivered_at p))]"

definition not_found :: response where
  "not_found = (404, JObj [(''success'', JBool False), (''message'', JStr ''Parcel not found'')])"

text \<open>\<open>GET /api/v1/parcels/:tracking_number\<close>\<close>

definition get_parcel :: "state \<Rightarrow> string \<Rightarrow> response" where
  "get_parcel s tn =
     (case map_of (parcels s) tn of
        None \<Rightarrow> not_found
      | Some r \<Rightarrow>
          let p = heap s ! r in
          (200, JObj [(''success'', JBool True),
                      (''data'', obj [(''tracking_number'', Some (JStr (tracking_number p))),
                                      (''order_id'', order_id p),
                                      (''status'', Some (JStr (status p))),
                                      (''customer_name'', customer_name p),
                                      (''customer_address'', customer_address p),
                                      (''cod_amount'', cod_amount p),
                                      (''status_history'', Some (history_json (status_history p)))])]))"

text \<open>\<open>PUT /api/v1/parcels/:tracking_number/status\<close>\<close>

definition update_status ::
  "state \<Rightarrow> string \<Rightarrow> req_body \<Rightarrow> timestamp \<Rightarrow> timestamp \<Rightarrow> timestamp \<Rightarrow> response \<times> state" where
  "update_status s tn body now_history now_delivered now_webhook =
     (case map_of (parcels s) tn of
        None \<Rightarrow> (not_found, s)
      | Some r \<Rightarrow>
         (case includes_status (body ''status'') of
            None \<Rightarrow> ((400, JObj [(''success'', JBool False), (''message'', JStr ''Invalid status'')]), s)
          | Some st \<Rightarrow>
              let p = heap s ! r;
                  p1 = p\<lparr>status := st,
                         status_history := status_history p @
                           [\<lparr>h_status = st, h_timestamp = now_history,
                             h_note = or_else (body ''note'') (Some (JStr (''Status updated to '' @ st)))\<rparr>]\<rparr>;
                  p2 = (if st = DELIVERED then p1\<lparr>delivered_at := Some now_delivered\<rparr> else p1);
                  s1 = s\<lparr>heap := (heap s)[r := p2], parcels := AList.update tn r (parcels s)\<rparr>;
                  res = (200, JObj [(''success'', JBool True),
                                    (''message'', JStr ''Status updated successfully''),
                                    (''data'', JObj [(''tracking_number'', JStr tn),
                                                     (''status'', JStr (status p2))])])
              in (res, if truthy (webhook_url p2) then sendWebhook (webhook_url p2) p2 now_webhook s1
                       else s1)))"

text \<open>\<open>GET /api/v1/parcels\<close>: \<open>Array.from(parcels.values())\<close>, in insertion order.\<close>

definition allParcels :: "state \<Rightarrow> parcel list" where
  "allParcels s = map (\<lambda>(tn, r). heap s ! r) (parcels s)"

definition list_parcels :: "state \<Rightarrow> response" where
  "list_parcels s =
     (200, JObj [(''success'', JBool True),
                 (''count'', JNum (int (length (allParcels s)))),
                 (''data'', JArr (map parcel_json (allParcels s)))])"

text \<open>
  \<open>POST /api/v1/parcels/:tracking_number/simulate\<close>. The delay table fixes only how far
  apart in real time the ticks are and the estimate echoed in the response; the model
  keeps the order of the ticks, not their times, and of the response the status code.
\<close>

definition failed_flow :: "string list" where
  "failed_flow = [COLLECTED, IN_TRANSIT, OUT_FOR_DELIVERY, FAILED_DELIVERY, RETURNED]"

definition default_flow :: "string list" where
  "default_flow = [COLLECTED, IN_TRANSIT, OUT_FOR_DELIVERY, DELIVERED, COMPLETED]"

definition simulate :: "state \<Rightarrow> string \<Rightarrow> req_body \<Rightarrow> nat \<times> state" where
  "simulate s tn body =
     (case map_of (parcels s) tn of
        None \<Rightarrow> (404, s)
      | Some r \<Rightarrow>
          (200, s\<lparr>intervals := intervals s @
                   [\<lparr>i_tracking_number = tn, i_parcel = r,
                     statusFlow = (if body ''scenario'' = Some (JStr ''failed'') then failed_flow
                                   else default_flow),
                     currentIndex = 0, cleared = False\<rparr>]\<rparr>))"

text \<open>The callback of interval \<open>i\<close>, run once.\<close>

definition interval_callback ::
  "state \<Rightarrow> nat \<Rightarrow> timestamp \<Rightarrow> timestamp \<Rightarrow> timestamp \<Rightarrow> state" where
  "interval_callback s i now_history now_delivered now_webhook =
     (let c = intervals s ! i in
      if currentIndex c \<ge> length (statusFlow c) then
        s\<lparr>intervals := (intervals s)[i := c\<lparr>cleared := True\<rparr>]\<rparr>
      else
        let newStatus = statusFlow c ! currentIndex c;
            r = i_parcel c;
            p = heap s ! r;
            p1 = p\<lparr>status := newStatus,
                   status_history := status_history p @
                     [\<lparr>h_status = newStatus, h_timestamp = now_history,
                       h_note = Some (JStr (''Auto-simulated: '' @ newStatus))\<rparr>]\<rparr>;
            p2 = (if newStatus = DELIVERED then p1\<lparr>delivered_at := Some now_delivered\<rparr> else p1);
            s1 = s\<lparr>heap := (heap s)[r := p2],
                   parcels := AList.update (i_tracking_number c) r (parcels s)\<rparr>;
            s2 = (if truthy (webhook_url p2) then sendWebhook (webhook_url p2) p2 now_webhook s1
                  else s1)
        in s2\<lparr>intervals := (intervals s2)[i := c\<lparr>currentIndex := currentIndex c + 1\<rparr>]\<rparr>)"

text \<open>
  A tick: the event loop fires interval \<open>i\<close>. Only an interval that was started and has
  not been cleared can fire; \<open>None\<close> says there is no such tick.
\<close>

definition tick :: "state \<Rightarrow> nat \<Rightarrow> timestamp \<times> timestamp \<times> timestamp \<Rightarrow> state option" where
  "tick s i now =
     (if i < length (intervals s) \<and> \<not> cleared (intervals s ! i)
      then Some (interval_callback s i (fst now) (fst (snd now)) (snd (snd now)))
      else None)"


text \<open>One operation of the system: a request handled, or a tick.\<close>

inductive step :: "state \<Rightarrow> state \<Rightarrow> bool" where
  step_create: "step s (snd (create_parcel s body t1 t2 t3))"
| step_update: "step s (snd (update_status s tn body t1 t2 t3))"
| step_simulate: "step s (snd (simulate s tn body))"
| step_tick: "tick s i now = Some s' \<Longrightarrow> step s s'"

inductive reachable :: "state \<Rightarrow> bool" where
  reachable_initial: "reachable initial"
| reachable_step: "reachable s \<Longrightarrow> step s s' \<Longrightarrow> reachable s'"

section \<open>Notions for the statements and proofs\<close>

text \<open>\<open>parcels.get(tn)\<close>, with the object it names: the parcel stored under a tracking number.\<close>

definition stored :: "state \<Rightarrow> string \<Rightarrow> parcel option" where
  "stored s tn = (case map_of (parcels s) tn of None \<Rightarrow> None | Some r \<Rightarrow> Some (heap s ! r))"

text \<open>
  What the manual update and a tick both do to the parcel object, each in its own
  lines of code: set the status, push a history entry, and stamp \<open>delivered_at\<close> when
  the status is \<open>DELIVERED\<close>. The lemmas \<open>update_status_applied\<close> and
  \<open>callback_applied\<close> below derive it from the two handlers.
\<close>

definition apply_status :: "string \<Rightarrow> timestamp \<Rightarrow> jsval \<Rightarrow> timestamp \<Rightarrow> parcel \<Rightarrow> parcel" where
  "apply_status st now_history nt now_delivered p =
     (let p1 = p\<lparr>status := st,
                 status_history := status_history p @
                   [\<lparr>h_status = st, h_timestamp = now_history, h_note = nt\<rparr>]\<rparr>
      in if st = DELIVERED then p1\<lparr>delivered_at := Some now_delivered\<rparr> else p1)"

text \<open>
  The value of a string of decimal digits, to show that \<open>number_toString\<close> is
  one-to-one, so that a new tracking number is never one already in use.
\<close>

definition digit_value :: "char \<Rightarrow> nat" where
  "digit_value ch = of_char ch - 48"

definition decimal :: "string \<Rightarrow> nat" where
  "decimal cs = foldl (\<lambda>a ch. 10 * a + digit_value ch) 0 cs"

text \<open>
  What holds of the references in every reachable state: a stored tracking number names
  an allocated object and was made from a counter value already passed, and the parcel
  a timer closed over is the one stored under the timer's tracking number.
\<close>

definition well_formed :: "state \<Rightarrow> bool" where
  "well_formed s \<longleftrightarrow>
     (\<forall>tn r. map_of (parcels s) tn = Some r \<longrightarrow>
        r < length (heap s) \<and> (\<exists>n < parcelIdCounter s. tn = ''YDN'' @ number_toString n)) \<and>
     (\<forall>c \<in> set (intervals s). map_of (parcels s) (i_tracking_number c) = Some (i_parcel c))"

text \<open>
  Interval \<open>i\<close> is scheduled, works on the parcel stored under \<open>tn\<close> (object \<open>r\<close>) with
  the sequence \<open>flow\<close>, and its next index is \<open>k\<close>.
\<close>

definition running :: "state \<Rightarrow> nat \<Rightarrow> string \<Rightarrow> nat \<Rightarrow> string list \<Rightarrow> nat \<Rightarrow> bool" where
  "running s i tn r flow k \<longleftrightarrow>
     i < length (intervals s) \<and>
     intervals s ! i = \<lparr>i_tracking_number = tn, i_parcel = r, statusFlow = flow,
                         currentIndex = k, cleared = False\<rparr> \<and>
     map_of (parcels s) tn = Some r \<and> r < length (heap s)"


inductive undisturbed :: "string \<Rightarrow> nat \<Rightarrow> state \<Rightarrow> state \<Rightarrow> bool"
  for tn :: string and i :: nat where
  undisturbed_create: "undisturbed tn i s (snd (create_parcel s body t1 t2 t3))"
| undisturbed_update: "tn' \<noteq> tn \<Longrightarrow> undisturbed tn i s (snd (update_status s tn' body t1 t2 t3))"
| undisturbed_rejected:
    "includes_status (body ''status'') = None \<Longrightarrow>
     undisturbed tn i s (snd (update_status s tn' body t1 t2 t3))"
| undisturbed_simulate: "undisturbed tn i s (snd (simulate s tn' body))"
| undisturbed_tick:
    "tick s j now = Some s' \<Longrightarrow> i_tracking_number (intervals s ! j) \<noteq> tn \<Longrightarrow>
     undisturbed tn i s s'"
| undisturbed_idle_tick:
    "j \<noteq> i \<Longrightarrow> tick s j now = Some s' \<Longrightarrow>
     length (statusFlow (intervals s ! j)) \<le> currentIndex (intervals s ! j) \<Longrightarrow>
     undisturbed tn i s s'"

inductive run_among :: "(state \<Rightarrow> state \<Rightarrow> bool) \<Rightarrow> nat \<Rightarrow> state \<Rightarrow> nat \<Rightarrow> state \<Rightarrow> bool"
  for others :: "state \<Rightarrow> state \<Rightarrow> bool" and i :: nat where
  run_start: "run_among others i s 0 s"
| run_other: "run_among others i s k s' \<Longrightarrow> others s' s'' \<Longrightarrow> run_among others i s k s''"
| run_tick: "run_among others i s k s' \<Longrightarrow> tick s' i now = Some s'' \<Longrightarrow> run_among others i s (Suc k) s''"


section \<open>Example inputs\<close>

text \<open>
  The creation request of the specification's scenario, the same request with the
  webhook URL of the source's usage example, and the states reached from the initial
  one by creating that parcel and updating it by hand.
\<close>

definition order_body :: req_body where
  "order_body = [''order_id'' \<mapsto> JStr ''ORD1'', ''customer_name'' \<mapsto> JStr ''A'',
     ''customer_phone'' \<mapsto> JStr ''000'', ''customer_address'' \<mapsto> JStr ''X'',
     ''price'' \<mapsto> JNum 1000]"

definition webhook_body :: req_body where
  "webhook_body = order_body(''webhook_url'' \<mapsto> JStr ''http://localhost:5000/api/v1/orders/delivery/webhook'')"

definition failed_body :: req_body where
  "failed_body = [''speed'' \<mapsto> JStr ''fast'', ''scenario'' \<mapsto> JStr ''failed'']"

definition one_parcel :: state where
  "one_parcel = snd (create_parcel initial order_body ''t1'' ''t2'' ''t3'')"

definition collected :: state where
  "collected = snd (update_status one_parcel ''YDN1000'' [''status'' \<mapsto> JStr ''collected''] ''t4'' ''t5'' ''t6'')"

definition delivered_once :: state where
  "delivered_once = snd (update_status one_parcel ''YDN1000'' [''status'' \<mapsto> JStr ''delivered''] ''t4'' ''t5'' ''t6'')"

definition delivered_twice :: state where
  "delivered_twice = snd (update_status delivered_once ''YDN1000'' [''status'' \<mapsto> JStr ''delivered''] ''t7'' ''t8'' ''t9'')"

definition simulating :: state where
  "simulating = snd (simulate delivered_once ''YDN1000'' Map.empty)"


text \<open>
  A failed-scenario run started on the example parcel, another parcel created while the
  run is under way, and the states after the run's ticks.
\<close>

definition run_started :: state where
  "run_started = snd (simulate one_parcel ''YDN1000'' failed_body)"

definition other_created :: state where
  "other_created = snd (create_parcel run_started order_body ''t4'' ''t5'' ''t6'')"

fun ticked :: "nat \<Rightarrow> state" where
  "ticked 0 = other_created"
| "ticked (Suc k) = interval_callback (ticked k) 0 ''a'' ''b'' ''c''"

section \<open>Basic facts about the handlers\<close>

lemmas status_defs =
  PENDING_PICKUP_def COLLECTED_def IN_TRANSIT_def OUT_FOR_DELIVERY_def DELIVERED_def
  FAILED_DELIVERY_def RETURNED_def COMPLETED_def CANCELLED_def

lemma sendWebhook_fields [simp]:
  "heap (sendWebhook u p t s) = heap s"
  "parcels (sendWebhook u p t s) = parcels s"
  "parcelIdCounter (sendWebhook u p t s) = parcelIdCounter s"
  "intervals (sendWebhook u p t s) = intervals s"
  "webhooks (sendWebhook u p t s) = webhooks s @ [(u, \<lparr>event = ''parcel.status.updated'',
            wp_timestamp = t,
            wp_tracking_number = tracking_number p,
            wp_order_id = order_id p,
            wp_status = status p,
            wp_cod_amount = cod_amount p,
            wp_delivered_at = delivered_at p,
            wp_status_history = status_history p\<rparr>)]"
  by (simp_all add: sendWebhook_def)

lemma create_rejected:
  "missing_required body \<Longrightarrow>
   create_parcel s body a b c =
     ((400, JObj [(''success'', JBool False), (''message'', JStr ''Missing required fields'')]), s)"
  by (simp add: create_parcel_def)

lemma create_accepted_heap:
  "\<not> missing_required body \<Longrightarrow>
   heap (snd (create_parcel s body a b c)) =
     heap s @ [new_parcel (''YDN'' @ number_toString (parcelIdCounter s)) body a b]"
  by (simp add: create_parcel_def Let_def)

lemma create_accepted_parcels:
  "\<not> missing_required body \<Longrightarrow>
   parcels (snd (create_parcel s body a b c)) =
     AList.update (''YDN'' @ number_toString (parcelIdCounter s)) (length (heap s)) (parcels s)"
  by (simp add: create_parcel_def Let_def)

lemma create_accepted_counter:
  "\<not> missing_required body \<Longrightarrow>
   parcelIdCounter (snd (create_parcel s body a b c)) = Suc (parcelIdCounter s)"
  by (simp add: create_parcel_def Let_def)

lemma create_intervals [simp]:
  "intervals (snd (create_parcel s body a b c)) = intervals s"
  by (simp add: create_parcel_def Let_def)

lemma create_accepted_response:
  "\<not> missing_required body \<Longrightarrow>
   fst (create_parcel s body a b c) =
     (201, JObj [(''success'', JBool True),
                 (''message'', JStr ''Parcel created successfully''),
                 (''data'', JObj [(''tracking_number'', JStr (''YDN'' @ number_toString (parcelIdCounter s))),
                                  (''status'', JStr PENDING_PICKUP),
                                  (''estimated_delivery'', JStr ''2-3 business days'')])])"
  by (simp add: create_parcel_def Let_def new_parcel_def)

lemma create_accepted_webhooks:
  "\<not> missing_required body \<Longrightarrow>
   webhooks (snd (create_parcel s body a b c)) =
     (if truthy (body ''webhook_url'') then
        webhooks s @
          [(body ''webhook_url'',
            \<lparr>event = ''parcel.status.updated'', wp_timestamp = c,
             wp_tracking_number = ''YDN'' @ number_toString (parcelIdCounter s),
             wp_order_id = body ''order_id'', wp_status = PENDING_PICKUP,
             wp_cod_amount = body ''price'', wp_delivered_at = None,
             wp_status_history =
               [\<lparr>h_status = PENDING_PICKUP, h_timestamp = b,
                 h_note = Some (JStr ''Parcel created and awaiting pickup'')\<rparr>]\<rparr>)]
      else webhooks s)"
  by (simp add: create_parcel_def Let_def new_parcel_def)

lemma apply_status_simps [simp]:
  "status (apply_status st a nt b p) = st"
  "status_history (apply_status st a nt b p) =
     status_history p @ [\<lparr>h_status = st, h_timestamp = a, h_note = nt\<rparr>]"
  "delivered_at (apply_status st a nt b p) = (if st = DELIVERED then Some b else delivered_at p)"
  "webhook_url (apply_status st a nt b p) = webhook_url p"
  "tracking_number (apply_status st a nt b p) = tracking_number p"
  by (simp_all add: apply_status_def Let_def)

lemma update_status_not_found:
  "map_of (parcels s) tn = None \<Longrightarrow> update_status s tn body a b c = (not_found, s)"
  by (simp add: update_status_def)

lemma update_status_invalid:
  "includes_status (body ''status'') = None \<Longrightarrow> snd (update_status s tn body a b c) = s"
  by (simp add: update_status_def split: option.splits)

lemma update_status_applied:
  assumes "map_of (parcels s) tn = Some r" and "includes_status (body ''status'') = Some st"
  shows "heap (snd (update_status s tn body a b c)) =
           (heap s)[r := apply_status st a (or_else (body ''note'') (Some (JStr (''Status updated to '' @ st)))) b (heap s ! r)]"
    and "parcels (snd (update_status s tn body a b c)) = parcels s"
    and "intervals (snd (update_status s tn body a b c)) = intervals s"
    and "parcelIdCounter (snd (update_status s tn body a b c)) = parcelIdCounter s"
  using assms by (simp_all add: update_status_def Let_def apply_status_def update_triv)

lemma simulate_started:
  assumes "map_of (parcels s) tn = Some r"
  shows "simulate s tn body =
          (200, s\<lparr>intervals := intervals s @
                   [\<lparr>i_tracking_number = tn, i_parcel = r,
                     statusFlow = (if body ''scenario'' = Some (JStr ''failed'') then failed_flow
                                   else default_flow),
                     currentIndex = 0, cleared = False\<rparr>]\<rparr>)"
  using assms by (simp add: simulate_def)

lemma callback_done:
  assumes "length (statusFlow (intervals s ! i)) \<le> currentIndex (intervals s ! i)"
  shows "interval_callback s i a b c =
           s\<lparr>intervals := (intervals s)[i := (intervals s ! i)\<lparr>cleared := True\<rparr>]\<rparr>"
  using assms by (simp add: interval_callback_def Let_def)

lemma callback_applied:
  assumes "currentIndex (intervals s ! i) < length (statusFlow (intervals s ! i))"
  defines "k \<equiv> intervals s ! i"
  defines "st \<equiv> statusFlow k ! currentIndex k"
  shows "heap (interval_callback s i a b c) =
           (heap s)[i_parcel k := apply_status st a (Some (JStr (''Auto-simulated: '' @ st))) b (heap s ! i_parcel k)]"
    and "parcels (interval_callback s i a b c) = AList.update (i_tracking_number k) (i_parcel k) (parcels s)"
    and "intervals (interval_callback s i a b c) = (intervals s)[i := k\<lparr>currentIndex := Suc (currentIndex k)\<rparr>]"
    and "parcelIdCounter (interval_callback s i a b c) = parcelIdCounter s"
    and "webhooks (interval_callback s i a b c) =
           (let p = apply_status st a (Some (JStr (''Auto-simulated: '' @ st))) b (heap s ! i_parcel k)
            in if truthy (webhook_url p) then webhooks (sendWebhook (webhook_url p) p c s) else webhooks s)"
  using assms(1) unfolding k_def st_def
  by (simp_all add: interval_callback_def Let_def apply_status_def)

lemma flow_lengths [simp]: "length failed_flow = 5" "length default_flow = 5"
  by (simp_all add: failed_flow_def default_flow_def)


section \<open>Tracking numbers are not reused\<close>

lemma digit_value_digit: "d < 10 \<Longrightarrow> digit_value (''0123456789'' ! d) = d"
proof -
  assume "d < 10"
  then have "d \<in> {0, 1, 2, 3, 4, 5, 6, 7, 8, 9}" by auto
  then show ?thesis by (auto simp add: digit_value_def)
qed

lemma decimal_snoc: "decimal (cs @ [ch]) = 10 * decimal cs + digit_value ch"
  by (simp add: decimal_def)

lemma decimal_number_toString: "decimal (number_toString n) = n"
proof (induction n rule: number_toString.induct)
  case (1 n)
  show ?case
  proof (cases "n < 10")
    case True
    then show ?thesis
      by (subst number_toString.simps) (simp add: decimal_def digit_value_digit)
  next
    case False
    with 1 have "decimal (number_toString (n div 10)) = n div 10" by simp
    with False show ?thesis
      by (subst number_toString.simps) (simp add: decimal_snoc digit_value_digit)
  qed
qed

lemma number_toString_inj: "number_toString a = number_toString b \<Longrightarrow> a = b"
  by (metis decimal_number_toString)

section \<open>What one operation does to the heap and the store\<close>

lemma step_heap_cases:
  assumes "step s s'"
  obtains (same) "heap s' = heap s"
  | (created) tn body a b where "heap s' = heap s @ [new_parcel tn body a b]"
  | (applied) r st a nt b where "heap s' = (heap s)[r := apply_status st a nt b (heap s ! r)]"
  using assms
proof (cases rule: step.cases)
  case (step_create body t1 t2 t3)
  then show ?thesis
    by (cases "missing_required body") (auto simp add: create_rejected create_accepted_heap intro: same created)
next
  case (step_update tn body t1 t2 t3)
  show ?thesis
  proof (cases "map_of (parcels s) tn")
    case None
    with step_update show ?thesis by (simp add: update_status_not_found same)
  next
    case (Some r)
    show ?thesis
    proof (cases "includes_status (body ''status'')")
      case None
      with step_update show ?thesis by (simp add: update_status_invalid same)
    next
      case (Some st)
      with \<open>map_of (parcels s) tn = Some r\<close> step_update show ?thesis
        by (simp add: update_status_applied applied)
    qed
  qed
next
  case (step_simulate tn body)
  then show ?thesis
    by (cases "map_of (parcels s) tn") (auto simp add: simulate_def intro: same)
next
  case (step_tick i now)
  show ?thesis
  proof (cases "currentIndex (intervals s ! i) < length (statusFlow (intervals s ! i))")
    case True
    with step_tick show ?thesis
      by (auto simp add: tick_def callback_applied split: if_splits intro: applied)
  next
    case False
    with step_tick show ?thesis
      by (auto simp add: tick_def callback_done split: if_splits intro: same)
  qed
qed

lemma step_heap_all:
  assumes "step s s'" and "\<forall>p \<in> set (heap s). P p"
    and new: "\<And>tn body a b. P (new_parcel tn body a b)"
    and app: "\<And>st a nt b p. P p \<Longrightarrow> P (apply_status st a nt b p)"
  shows "\<forall>p \<in> set (heap s'). P p"
  using assms(1)
proof (cases rule: step_heap_cases)
  case same
  with assms(2) show ?thesis by simp
next
  case (created tn body a b)
  with assms(2) new show ?thesis by simp
next
  case (applied r st a nt b)
  show ?thesis
  proof (cases "r < length (heap s)")
    case True
    with assms(2) have "P (heap s ! r)" by simp
    then have "P (apply_status st a nt b (heap s ! r))" by (rule app)
    with assms(2) applied show ?thesis
      using set_update_subset_insert [of "heap s" r] by auto
  next
    case False
    then have "(heap s)[r := apply_status st a nt b (heap s ! r)] = heap s"
      by (simp add: list_update_beyond)
    with applied assms(2) show ?thesis by simp
  qed
qed

lemma step_history_prefix:
  assumes "step s s'" and "r < length (heap s)"
  shows "prefix (status_history (heap s ! r)) (status_history (heap s' ! r))"
  using assms(1)
proof (cases rule: step_heap_cases)
  case same
  then show ?thesis by simp
next
  case (created tn body a b)
  with assms(2) show ?thesis by (simp add: nth_append)
next
  case (applied r' st a nt b)
  with assms(2) show ?thesis by (cases "r' = r") simp_all
qed

lemma step_delivered_kept:
  assumes "step s s'" and "r < length (heap s)" and "delivered_at (heap s ! r) \<noteq> None"
  shows "delivered_at (heap s' ! r) \<noteq> None"
  using assms(1)
proof (cases rule: step_heap_cases)
  case same
  with assms(3) show ?thesis by simp
next
  case (created tn body a b)
  with assms(2,3) show ?thesis by (simp add: nth_append)
next
  case (applied r' st a nt b)
  with assms(2,3) show ?thesis by (cases "r' = r") simp_all
qed

lemma step_counter_mono: "step s s' \<Longrightarrow> parcelIdCounter s \<le> parcelIdCounter s'"
proof (induction rule: step.induct)
  case (step_create s body t1 t2 t3)
  show ?case
    by (cases "missing_required body") (simp_all add: create_rejected create_accepted_counter)
next
  case (step_update s tn body t1 t2 t3)
  show ?case
    by (cases "map_of (parcels s) tn"; cases "includes_status (body ''status'')")
      (simp_all add: update_status_not_found update_status_invalid update_status_applied)
next
  case (step_simulate s tn body)
  show ?case by (cases "map_of (parcels s) tn") (simp_all add: simulate_def)
next
  case (step_tick s i now s')
  then show ?case
    by (cases "currentIndex (intervals s ! i) < length (statusFlow (intervals s ! i))")
      (auto simp add: tick_def callback_applied callback_done split: if_splits)
qed

lemma step_parcels_cases:
  assumes "step s s'" and "well_formed s"
  obtains (same) "parcels s' = parcels s" "parcelIdCounter s' = parcelIdCounter s"
      "length (heap s') = length (heap s)"
  | (created) "parcels s' =
        AList.update (''YDN'' @ number_toString (parcelIdCounter s)) (length (heap s)) (parcels s)"
      "parcelIdCounter s' = Suc (parcelIdCounter s)" "length (heap s') = Suc (length (heap s))"
  using assms(1)
proof (cases rule: step.cases)
  case (step_create body t1 t2 t3)
  then show ?thesis
    by (cases "missing_required body")
      (auto simp add: create_rejected create_accepted_heap create_accepted_parcels
        create_accepted_counter intro: same created)
next
  case (step_update tn body t1 t2 t3)
  show ?thesis
  proof (cases "map_of (parcels s) tn")
    case None
    with step_update show ?thesis by (simp add: update_status_not_found same)
  next
    case (Some r)
    show ?thesis
    proof (cases "includes_status (body ''status'')")
      case None
      with step_update show ?thesis by (simp add: update_status_invalid same)
    next
      case (Some st)
      with \<open>map_of (parcels s) tn = Some r\<close> step_update show ?thesis
        by (simp add: update_status_applied same)
    qed
  qed
next
  case (step_simulate tn body)
  then show ?thesis
    by (cases "map_of (parcels s) tn") (auto simp add: simulate_def intro: same)
next
  case (step_tick i now)
  then have i: "i < length (intervals s)" and s': "s' = interval_callback s i (fst now) (fst (snd now)) (snd (snd now))"
    by (auto simp add: tick_def split: if_splits)
  show ?thesis
  proof (cases "currentIndex (intervals s ! i) < length (statusFlow (intervals s ! i))")
    case True
    from i have "intervals s ! i \<in> set (intervals s)" by simp
    with assms(2) have "map_of (parcels s) (i_tracking_number (intervals s ! i)) = Some (i_parcel (intervals s ! i))"
      by (simp add: well_formed_def)
    with True s' show ?thesis
      by (simp add: callback_applied update_triv same)
  next
    case False
    with s' show ?thesis by (simp add: callback_done same)
  qed
qed

lemma well_formed_fresh:
  assumes "well_formed s"
  shows "map_of (parcels s) (''YDN'' @ number_toString (parcelIdCounter s)) = None"
proof (cases "map_of (parcels s) (''YDN'' @ number_toString (parcelIdCounter s))")
  case None
  then show ?thesis .
next
  case (Some r)
  with assms obtain n where "n < parcelIdCounter s"
    and "''YDN'' @ number_toString (parcelIdCounter s) = ''YDN'' @ number_toString n"
    unfolding well_formed_def by blast
  then have "parcelIdCounter s = n" by (simp add: number_toString_inj)
  with \<open>n < parcelIdCounter s\<close> show ?thesis by simp
qed

lemma step_keeps_binding:
  assumes "step s s'" and "well_formed s" and "map_of (parcels s) tn = Some r"
  shows "map_of (parcels s') tn = Some r"
  using assms(1,2)
proof (cases rule: step_parcels_cases)
  case same
  with assms(3) show ?thesis by simp
next
  case created
  from assms(2) have "map_of (parcels s) (''YDN'' @ number_toString (parcelIdCounter s)) = None"
    by (rule well_formed_fresh)
  with assms(3) have "tn \<noteq> ''YDN'' @ number_toString (parcelIdCounter s)" by auto
  with created assms(3) show ?thesis by (simp add: update_conv')
qed

lemma step_intervals:
  assumes "step s s'" and "well_formed s" and "c \<in> set (intervals s')"
  shows "map_of (parcels s) (i_tracking_number c) = Some (i_parcel c)"
proof -
  have old: "map_of (parcels s) (i_tracking_number k) = Some (i_parcel k)" if "k \<in> set (intervals s)" for k
    using assms(2) that by (simp add: well_formed_def)
  from assms(1) show ?thesis
  proof (cases rule: step.cases)
    case (step_create body t1 t2 t3)
    with assms(3) old show ?thesis by simp
  next
    case (step_update tn body t1 t2 t3)
    have "intervals s' = intervals s"
      unfolding step_update
      by (cases "map_of (parcels s) tn"; cases "includes_status (body ''status'')")
        (simp_all add: update_status_not_found update_status_invalid update_status_applied)
    with assms(3) old show ?thesis by simp
  next
    case (step_simulate tn body)
    with assms(3) old show ?thesis
      by (cases "map_of (parcels s) tn") (auto simp add: simulate_def)
  next
    case (step_tick i now)
    then have i: "i < length (intervals s)"
      and s': "s' = interval_callback s i (fst now) (fst (snd now)) (snd (snd now))"
      by (auto simp add: tick_def split: if_splits)
    from i have k: "intervals s ! i \<in> set (intervals s)" by simp
    show ?thesis
    proof (cases "currentIndex (intervals s ! i) < length (statusFlow (intervals s ! i))")
      case True
      with s' have "intervals s' = (intervals s)[i := (intervals s ! i)\<lparr>currentIndex := Suc (currentIndex (intervals s ! i))\<rparr>]"
        by (simp add: callback_applied)
      with assms(3) have "c = (intervals s ! i)\<lparr>currentIndex := Suc (currentIndex (intervals s ! i))\<rparr> \<or> c \<in> set (intervals s)"
        using set_update_subset_insert [of "intervals s" i] by auto
      with old k show ?thesis by auto
    next
      case False
      with s' have "intervals s' = (intervals s)[i := (intervals s ! i)\<lparr>cleared := True\<rparr>]"
        by (simp add: callback_done)
      with assms(3) have "c = (intervals s ! i)\<lparr>cleared := True\<rparr> \<or> c \<in> set (intervals s)"
        using set_update_subset_insert [of "intervals s" i] by auto
      with old k show ?thesis by auto
    qed
  qed
qed

lemma step_well_formed:
  assumes "step s s'" and "well_formed s"
  shows "well_formed s'"
proof -
  have binds: "\<forall>c \<in> set (intervals s'). map_of (parcels s') (i_tracking_number c) = Some (i_parcel c)"
    using assms step_intervals step_keeps_binding by blast
  have "\<forall>tn r. map_of (parcels s') tn = Some r \<longrightarrow>
          r < length (heap s') \<and> (\<exists>n < parcelIdCounter s'. tn = ''YDN'' @ number_toString n)"
    using assms
  proof (cases rule: step_parcels_cases)
    case same
    with assms(2) show ?thesis by (simp add: well_formed_def)
  next
    case created
    show ?thesis
    proof (intro allI impI)
      fix tn r
      assume "map_of (parcels s') tn = Some r"
      with created have *: "((map_of (parcels s))(''YDN'' @ number_toString (parcelIdCounter s) \<mapsto> length (heap s))) tn = Some r"
        by (simp add: update_conv')
      show "r < length (heap s') \<and> (\<exists>n < parcelIdCounter s'. tn = ''YDN'' @ number_toString n)"
      proof (cases "tn = ''YDN'' @ number_toString (parcelIdCounter s)")
        case True
        with * created show ?thesis by auto
      next
        case False
        with * have "map_of (parcels s) tn = Some r" by simp
        with assms(2) have "r < length (heap s)" and "\<exists>n < parcelIdCounter s. tn = ''YDN'' @ number_toString n"
          by (simp_all add: well_formed_def)
        with created show ?thesis by (auto intro: less_SucI)
      qed
    qed
  qed
  with binds show ?thesis by (simp add: well_formed_def)
qed

lemma well_formed_initial: "well_formed initial"
  by (simp add: well_formed_def initial_def)

lemma reachable_well_formed: "reachable s \<Longrightarrow> well_formed s"
  by (induction rule: reachable.induct) (auto intro: well_formed_initial step_well_formed)

lemma reachable_consistent:
  "reachable s \<Longrightarrow>
   \<forall>p \<in> set (heap s). status_history p \<noteq> [] \<and> status p = h_status (last (status_history p))"
proof (induction rule: reachable.induct)
  case reachable_initial
  show ?case by (simp add: initial_def)
next
  case (reachable_step s s')
  from reachable_step.hyps(2) reachable_step.IH show ?case
    by (rule step_heap_all) (simp_all add: new_parcel_def)
qed

lemma reachable_rooted:
  "reachable s \<Longrightarrow>
   \<forall>p \<in> set (heap s). status_history p \<noteq> [] \<and> h_status (hd (status_history p)) = PENDING_PICKUP"
proof (induction rule: reachable.induct)
  case reachable_initial
  show ?case by (simp add: initial_def)
next
  case (reachable_step s s')
  from reachable_step.hyps(2) reachable_step.IH show ?case
    by (rule step_heap_all) (simp_all add: new_parcel_def)
qed

section \<open>Stored parcels\<close>

lemma stored_ref:
  assumes "well_formed s" and "stored s tn = Some p"
  obtains r where "map_of (parcels s) tn = Some r" and "r < length (heap s)" and "p = heap s ! r"
  using assms by (auto simp add: stored_def well_formed_def split: option.splits)

lemma stored_create:
  assumes "\<not> missing_required body"
  shows "stored (snd (create_parcel s body a b c)) (''YDN'' @ number_toString (parcelIdCounter s)) =
           Some (new_parcel (''YDN'' @ number_toString (parcelIdCounter s)) body a b)"
  using assms
  by (simp add: stored_def create_accepted_parcels create_accepted_heap update_conv')

lemma stored_update_status:
  assumes "well_formed s" and "stored s tn = Some p"
    and "includes_status (body ''status'') = Some st"
  shows "stored (snd (update_status s tn body a b c)) tn =
           Some (apply_status st a (or_else (body ''note'') (Some (JStr (''Status updated to '' @ st)))) b p)"
proof -
  from assms(1,2) obtain r where m: "map_of (parcels s) tn = Some r"
    and r: "r < length (heap s)" and p: "p = heap s ! r"
    by (rule stored_ref)
  from m assms(3) r p show ?thesis
    by (simp add: stored_def update_status_applied)
qed

lemma stored_simulate [simp]: "stored (snd (simulate s tn body)) tn' = stored s tn'"
  by (simp add: stored_def simulate_def split: option.splits)

section \<open>Ticks of one interval\<close>


lemma tick_applies:
  assumes "running s i tn r flow k" and "k < length flow"
  shows "tick s i (a, b, c) = Some (interval_callback s i a b c)"
    and "running (interval_callback s i a b c) i tn r flow (Suc k)"
    and "heap (interval_callback s i a b c) =
           (heap s)[r := apply_status (flow ! k) a (Some (JStr (''Auto-simulated: '' @ flow ! k))) b (heap s ! r)]"
    and "parcels (interval_callback s i a b c) = parcels s"
  using assms by (simp_all add: running_def tick_def callback_applied update_triv)


lemma stored_tick:
  assumes "running s i tn r flow k" and "k < length flow"
  shows "stored (interval_callback s i a b c) tn =
           Some (apply_status (flow ! k) a (Some (JStr (''Auto-simulated: '' @ flow ! k))) b (heap s ! r))"
proof -
  from assms(1) have "map_of (parcels s) tn = Some r" and "r < length (heap s)"
    by (simp_all add: running_def)
  then show ?thesis
    by (simp add: stored_def tick_applies [OF assms])
qed

lemma running_scheduled:
  assumes "well_formed s" and "i < length (intervals s)" and "\<not> cleared (intervals s ! i)"
  shows "running s i (i_tracking_number (intervals s ! i)) (i_parcel (intervals s ! i))
           (statusFlow (intervals s ! i)) (currentIndex (intervals s ! i))"
proof -
  from assms(2) have "intervals s ! i \<in> set (intervals s)" by simp
  with assms(1) have m: "map_of (parcels s) (i_tracking_number (intervals s ! i)) = Some (i_parcel (intervals s ! i))"
    by (simp add: well_formed_def)
  with assms(1) have "i_parcel (intervals s ! i) < length (heap s)"
    by (simp add: well_formed_def)
  with m assms(2,3) show ?thesis by (simp add: running_def)
qed



section \<open>Runs interleaved with other operations\<close>



lemma update_status_intervals [simp]:
  "intervals (snd (update_status s tn body a b c)) = intervals s"
  by (cases "map_of (parcels s) tn"; cases "includes_status (body ''status'')")
    (simp_all add: update_status_not_found update_status_invalid update_status_applied)











section \<open>The example states\<close>

lemma one_parcel_eq:
  "one_parcel =
     \<lparr>heap = [new_parcel ''YDN1000'' order_body ''t1'' ''t2''],
      parcels = [(''YDN1000'', 0)], parcelIdCounter = 1001, intervals = [], webhooks = []\<rparr>"
  by (simp add: one_parcel_def create_parcel_def missing_required_def order_body_def initial_def
      number_toString.simps Let_def)

lemma reachable_one_parcel: "reachable one_parcel"
  unfolding one_parcel_def by (rule reachable_step [OF reachable_initial step_create])

lemma reachable_collected: "reachable collected"
  unfolding collected_def by (rule reachable_step [OF reachable_one_parcel step_update])

lemma reachable_delivered_once: "reachable delivered_once"
  unfolding delivered_once_def by (rule reachable_step [OF reachable_one_parcel step_update])

lemma reachable_simulating: "reachable simulating"
  unfolding simulating_def by (rule reachable_step [OF reachable_delivered_once step_simulate])

lemma includes_status_examples:
  "includes_status (Some (JStr ''collected'')) = Some ''collected''"
  "includes_status (Some (JStr ''delivered'')) = Some ''delivered''"
  by (simp_all add: includes_status_def STATUSES_values_def status_defs)

lemma stored_one_parcel:
  "stored one_parcel ''YDN1000'' = Some (new_parcel ''YDN1000'' order_body ''t1'' ''t2'')"
  by (simp add: stored_def one_parcel_eq)

lemma stored_collected:
  "stored collected ''YDN1000'' =
     Some (apply_status ''collected'' ''t4'' (Some (JStr ''Status updated to collected'')) ''t5''
            (new_parcel ''YDN1000'' order_body ''t1'' ''t2''))"
proof -
  have m: "map_of (parcels one_parcel) ''YDN1000'' = Some 0" by (simp add: one_parcel_eq)
  have i: "includes_status ([''status'' \<mapsto> JStr ''collected''] ''status'') = Some ''collected''"
    by (simp add: includes_status_examples)
  show ?thesis
    unfolding collected_def stored_def
    by (simp add: update_status_applied [where body = "[''status'' \<mapsto> JStr ''collected'']", OF m i] m)
      (simp add: one_parcel_eq or_else_def)
qed

lemma stored_delivered_once:
  "stored delivered_once ''YDN1000'' =
     Some (apply_status ''delivered'' ''t4'' (Some (JStr ''Status updated to delivered'')) ''t5''
            (new_parcel ''YDN1000'' order_body ''t1'' ''t2''))"
  unfolding delivered_once_def
  using stored_update_status [where body = "[''status'' \<mapsto> JStr ''delivered'']" and st = "''delivered''",
      OF reachable_well_formed [OF reachable_one_parcel] stored_one_parcel]
  by (simp add: includes_status_examples or_else_def)

lemma stored_delivered_twice:
  "stored delivered_twice ''YDN1000'' =
     Some (apply_status ''delivered'' ''t7'' (Some (JStr ''Status updated to delivered'')) ''t8''
       (apply_status ''delivered'' ''t4'' (Some (JStr ''Status updated to delivered'')) ''t5''
            (new_parcel ''YDN1000'' order_body ''t1'' ''t2'')))"
  unfolding delivered_twice_def
  using stored_update_status [where body = "[''status'' \<mapsto> JStr ''delivered'']" and st = "''delivered''",
      OF reachable_well_formed [OF reachable_delivered_once] stored_delivered_once]
  by (simp add: includes_status_examples or_else_def)


lemma intervals_simulating:
  "intervals simulating =
     [\<lparr>i_tracking_number = ''YDN1000'', i_parcel = 0, statusFlow = default_flow,
       currentIndex = 0, cleared = False\<rparr>]"
proof -
  have "map_of (parcels delivered_once) ''YDN1000'' = Some 0"
    unfolding delivered_once_def
    by (simp add: update_status_applied(2) [where body = "[''status'' \<mapsto> JStr ''delivered'']"]
        includes_status_examples one_parcel_eq)
  moreover have "intervals delivered_once = []"
    unfolding delivered_once_def
    by (simp add: update_status_applied(3) [where body = "[''status'' \<mapsto> JStr ''delivered'']"]
        includes_status_examples one_parcel_eq)
  ultimately show ?thesis
    by (simp add: simulating_def simulate_started)
qed

section \<open>Creation\<close>

text \<open>
  Claim C6, as stated, fails: a request that supplies all five required fields is not
  always answered with 201. Here every required field is supplied and
  \<open>customer_name\<close> is the empty string; the answer is 400 and the state is unchanged.
\<close>

theorem create_empty_name_counterexample:
  "(order_body(''customer_name'' \<mapsto> JStr '''')) ''order_id'' = Some (JStr ''ORD1'')
   \<and> (order_body(''customer_name'' \<mapsto> JStr '''')) ''customer_name'' = Some (JStr '''')
   \<and> (order_body(''customer_name'' \<mapsto> JStr '''')) ''customer_phone'' = Some (JStr ''000'')
   \<and> (order_body(''customer_name'' \<mapsto> JStr '''')) ''customer_address'' = Some (JStr ''X'')
   \<and> (order_body(''customer_name'' \<mapsto> JStr '''')) ''price'' = Some (JNum 1000)
   \<and> fst (fst (create_parcel initial (order_body(''customer_name'' \<mapsto> JStr '''')) ''t1'' ''t2'' ''t3'')) = 400
   \<and> snd (create_parcel initial (order_body(''customer_name'' \<mapsto> JStr '''')) ''t1'' ''t2'' ''t3'') = initial"
  by (simp add: order_body_def create_parcel_def missing_required_def)

text \<open>
  Claim C6, amended. A creation request whose five required fields are all truthy is
  answered with 201 and the tracking number \<open>YDN\<close> followed by the decimal digits of the
  counter's current value; the counter is one more afterwards, and no operation ever
  lowers it. The parcel stored under that tracking number has status
  \<open>PENDING_PICKUP\<close>, a history of one entry whose status is \<open>PENDING_PICKUP\<close>, the
  request's price, and a \<open>cod_amount\<close> equal to the price.
\<close>

theorem create_with_truthy_fields:
  assumes "truthy (body ''order_id'')" and "truthy (body ''customer_name'')"
    and "truthy (body ''customer_phone'')" and "truthy (body ''customer_address'')"
    and "truthy (body ''price'')"
  shows "fst (create_parcel s body t1 t2 t3) =
           (201, JObj [(''success'', JBool True),
                       (''message'', JStr ''Parcel created successfully''),
                       (''data'', JObj [(''tracking_number'', JStr (''YDN'' @ number_toString (parcelIdCounter s))),
                                        (''status'', JStr PENDING_PICKUP),
                                        (''estimated_delivery'', JStr ''2-3 business days'')])])
         \<and> parcelIdCounter (snd (create_parcel s body t1 t2 t3)) = parcelIdCounter s + 1
         \<and> (\<forall>s'. step s s' \<longrightarrow> parcelIdCounter s \<le> parcelIdCounter s')
         \<and> (\<exists>p. stored (snd (create_parcel s body t1 t2 t3))
                     (''YDN'' @ number_toString (parcelIdCounter s)) = Some p
                \<and> status p = PENDING_PICKUP
                \<and> map h_status (status_history p) = [PENDING_PICKUP]
                \<and> price p = body ''price'' \<and> cod_amount p = price p)"
proof -
  from assms have ok: "\<not> missing_required body" by (simp add: missing_required_def)
  then have "stored (snd (create_parcel s body t1 t2 t3)) (''YDN'' @ number_toString (parcelIdCounter s))
      = Some (new_parcel (''YDN'' @ number_toString (parcelIdCounter s)) body t1 t2)"
    by (rule stored_create)
  then have "\<exists>p. stored (snd (create_parcel s body t1 t2 t3))
                     (''YDN'' @ number_toString (parcelIdCounter s)) = Some p
                \<and> status p = PENDING_PICKUP
                \<and> map h_status (status_history p) = [PENDING_PICKUP]
                \<and> price p = body ''price'' \<and> cod_amount p = price p"
    by (simp add: new_parcel_def)
  with ok show ?thesis
    by (simp add: create_accepted_response create_accepted_counter step_counter_mono)
qed

theorem create_with_truthy_fields_witness:
  "truthy (order_body ''order_id'') \<and> truthy (order_body ''customer_name'')
   \<and> truthy (order_body ''customer_phone'') \<and> truthy (order_body ''customer_address'')
   \<and> truthy (order_body ''price'')
   \<and> fst (create_parcel initial order_body ''t1'' ''t2'' ''t3'') =
           (201, JObj [(''success'', JBool True),
                       (''message'', JStr ''Parcel created successfully''),
                       (''data'', JObj [(''tracking_number'', JStr ''YDN1000''),
                                        (''status'', JStr ''pending_pickup''),
                                        (''estimated_delivery'', JStr ''2-3 business days'')])])
   \<and> parcelIdCounter (snd (create_parcel initial order_body ''t1'' ''t2'' ''t3'')) = 1001
   \<and> step initial one_parcel \<and> parcelIdCounter initial \<le> parcelIdCounter one_parcel
   \<and> (\<exists>p. stored (snd (create_parcel initial order_body ''t1'' ''t2'' ''t3'')) ''YDN1000'' = Some p
          \<and> status p = ''pending_pickup''
          \<and> map h_status (status_history p) = [''pending_pickup'']
          \<and> price p = Some (JNum 1000) \<and> cod_amount p = Some (JNum 1000))"
proof -
  have t: "truthy (order_body ''order_id'')" "truthy (order_body ''customer_name'')"
    "truthy (order_body ''customer_phone'')" "truthy (order_body ''customer_address'')"
    "truthy (order_body ''price'')"
    by (simp_all add: order_body_def)
  have n: "number_toString 1000 = ''1000''"
    by (simp add: number_toString.simps)
  have c: "parcelIdCounter initial = 1000" by (simp add: initial_def)
  have pr: "order_body ''price'' = Some (JNum 1000)" by (simp add: order_body_def)
  have st: "step initial one_parcel" unfolding one_parcel_def by (rule step_create)
  from create_with_truthy_fields [OF t, of initial "''t1''" "''t2''" "''t3''"] t st
  show ?thesis unfolding c pr n PENDING_PICKUP_def by auto
qed

text \<open>
  Claim C7. A creation request that lacks one of the required fields \<open>order_id\<close>,
  \<open>customer_name\<close>, \<open>customer_phone\<close>, \<open>customer_address\<close>, \<open>price\<close> is answered with
  400 "Missing required fields", and the state after the request is the state before
  it: no parcel is added, and listing the parcels gives the same answer (the same
  count) as before.
\<close>

theorem create_missing_field:
  assumes "f \<in> {''order_id'', ''customer_name'', ''customer_phone'', ''customer_address'', ''price''}"
    and "body f = None"
  shows "create_parcel s body t1 t2 t3 =
           ((400, JObj [(''success'', JBool False), (''message'', JStr ''Missing required fields'')]), s)
         \<and> list_parcels (snd (create_parcel s body t1 t2 t3)) = list_parcels s"
proof -
  from assms have "\<not> truthy (body f)" by simp
  with assms(1) have "missing_required body"
    unfolding missing_required_def by blast
  then show ?thesis by (simp add: create_rejected)
qed

theorem create_missing_field_witness:
  "(order_body(''price'' := None)) ''price'' = None
   \<and> create_parcel one_parcel (order_body(''price'' := None)) ''t4'' ''t5'' ''t6'' =
       ((400, JObj [(''success'', JBool False), (''message'', JStr ''Missing required fields'')]),
        one_parcel)
   \<and> list_parcels (snd (create_parcel one_parcel (order_body(''price'' := None)) ''t4'' ''t5'' ''t6''))
       = list_parcels one_parcel"
  using create_missing_field [of "''price''" "order_body(''price'' := None)" one_parcel
      "''t4''" "''t5''" "''t6''"]
  by simp

text \<open>
  Claim C10. The required-field check of creation tests truthiness, not presence: a
  request in which all five required fields are present but one of them is falsy (a
  price of 0, an empty \<open>customer_name\<close>, \<open>null\<close>, \<open>false\<close>) is answered with 400
  "Missing required fields" and the state is unchanged, so no parcel is created.
\<close>

theorem create_falsy_field:
  assumes "\<forall>g \<in> {''order_id'', ''customer_name'', ''customer_phone'', ''customer_address'', ''price''}.
             body g \<noteq> None"
    and "f \<in> {''order_id'', ''customer_name'', ''customer_phone'', ''customer_address'', ''price''}"
    and "\<not> truthy (body f)"
  shows "create_parcel s body t1 t2 t3 =
           ((400, JObj [(''success'', JBool False), (''message'', JStr ''Missing required fields'')]), s)"
proof -
  from assms(2,3) have "missing_required body"
    unfolding missing_required_def by blast
  then show ?thesis by (rule create_rejected)
qed

theorem create_falsy_field_witness:
  "(order_body(''price'' \<mapsto> JNum 0)) ''order_id'' \<noteq> None
   \<and> (order_body(''price'' \<mapsto> JNum 0)) ''customer_name'' \<noteq> None
   \<and> (order_body(''price'' \<mapsto> JNum 0)) ''customer_phone'' \<noteq> None
   \<and> (order_body(''price'' \<mapsto> JNum 0)) ''customer_address'' \<noteq> None
   \<and> (order_body(''price'' \<mapsto> JNum 0)) ''price'' = Some (JNum 0)
   \<and> create_parcel initial (order_body(''price'' \<mapsto> JNum 0)) ''t1'' ''t2'' ''t3'' =
       ((400, JObj [(''success'', JBool False), (''message'', JStr ''Missing required fields'')]),
        initial)"
  using create_falsy_field [of "order_body(''price'' \<mapsto> JNum 0)" "''price''" initial
      "''t1''" "''t2''" "''t3''"]
  by (simp add: order_body_def)

text \<open>
  Claim C9, as stated, fails: a \<open>webhook_url\<close> that is present in the request does not
  always lead to a notification. Here it is present and is the empty string; the parcel
  is created (201, stored) and no webhook is sent.
\<close>

theorem create_empty_webhook_url_counterexample:
  "(order_body(''webhook_url'' \<mapsto> JStr '''')) ''webhook_url'' = Some (JStr '''')
   \<and> fst (fst (create_parcel initial (order_body(''webhook_url'' \<mapsto> JStr '''')) ''t1'' ''t2'' ''t3'')) = 201
   \<and> stored (snd (create_parcel initial (order_body(''webhook_url'' \<mapsto> JStr '''')) ''t1'' ''t2'' ''t3''))
        ''YDN1000'' \<noteq> None
   \<and> webhooks (snd (create_parcel initial (order_body(''webhook_url'' \<mapsto> JStr '''')) ''t1'' ''t2'' ''t3'')) = []"
  by (simp add: order_body_def create_parcel_def missing_required_def Let_def initial_def
      number_toString.simps stored_def)

text \<open>
  Claim C9, amended. When a parcel is created with a truthy \<open>webhook_url\<close> (a non-empty
  string, say), exactly one webhook is sent to that URL during the creation request,
  before any status transition: its event is \<open>parcel.status.updated\<close>, its status is
  \<open>PENDING_PICKUP\<close>, \<open>delivered_at\<close> is null and the history has the single creation
  entry. When the \<open>webhook_url\<close> is falsy (absent, or present as the empty string,
  \<open>null\<close>, \<open>false\<close> or 0), creation sends nothing.
\<close>

theorem create_webhook_iff_truthy_url:
  assumes "truthy (body ''order_id'')" and "truthy (body ''customer_name'')"
    and "truthy (body ''customer_phone'')" and "truthy (body ''customer_address'')"
    and "truthy (body ''price'')"
  shows "webhooks (snd (create_parcel s body t1 t2 t3)) =
     (if truthy (body ''webhook_url'') then
        webhooks s @
          [(body ''webhook_url'',
            \<lparr>event = ''parcel.status.updated'', wp_timestamp = t3,
             wp_tracking_number = ''YDN'' @ number_toString (parcelIdCounter s),
             wp_order_id = body ''order_id'', wp_status = PENDING_PICKUP,
             wp_cod_amount = body ''price'', wp_delivered_at = None,
             wp_status_history =
               [\<lparr>h_status = PENDING_PICKUP, h_timestamp = t2,
                 h_note = Some (JStr ''Parcel created and awaiting pickup'')\<rparr>]\<rparr>)]
      else webhooks s)"
proof -
  from assms have "\<not> missing_required body" by (simp add: missing_required_def)
  then show ?thesis by (rule create_accepted_webhooks)
qed

theorem create_webhook_iff_truthy_url_witness:
  "truthy (webhook_body ''order_id'') \<and> truthy (webhook_body ''customer_name'')
   \<and> truthy (webhook_body ''customer_phone'') \<and> truthy (webhook_body ''customer_address'')
   \<and> truthy (webhook_body ''price'')
   \<and> webhooks (snd (create_parcel initial webhook_body ''t1'' ''t2'' ''t3'')) =
       [(Some (JStr ''http://localhost:5000/api/v1/orders/delivery/webhook''),
         \<lparr>event = ''parcel.status.updated'', wp_timestamp = ''t3'',
          wp_tracking_number = ''YDN1000'',
          wp_order_id = Some (JStr ''ORD1''), wp_status = ''pending_pickup'',
          wp_cod_amount = Some (JNum 1000), wp_delivered_at = None,
          wp_status_history =
            [\<lparr>h_status = ''pending_pickup'', h_timestamp = ''t2'',
              h_note = Some (JStr ''Parcel created and awaiting pickup'')\<rparr>]\<rparr>)]"
proof -
  have t: "truthy (webhook_body ''order_id'')" "truthy (webhook_body ''customer_name'')"
    "truthy (webhook_body ''customer_phone'')" "truthy (webhook_body ''customer_address'')"
    "truthy (webhook_body ''price'')"
    by (simp_all add: webhook_body_def order_body_def)
  have f: "webhook_body ''webhook_url'' = Some (JStr ''http://localhost:5000/api/v1/orders/delivery/webhook'')"
    "webhook_body ''order_id'' = Some (JStr ''ORD1'')" "webhook_body ''price'' = Some (JNum 1000)"
    by (simp_all add: webhook_body_def order_body_def)
  have i: "parcelIdCounter initial = 1000" "webhooks initial = []"
    by (simp_all add: initial_def)
  have n: "number_toString 1000 = ''1000''"
    by (simp add: number_toString.simps)
  from create_webhook_iff_truthy_url [OF t, of initial "''t1''" "''t2''" "''t3''"] t
  show ?thesis by (simp add: f i n PENDING_PICKUP_def)
qed

section \<open>Manual status updates\<close>

text \<open>
  Claim C2. For a stored parcel and a string that is not one of the nine status values,
  the manual status update answers 400 "Invalid status" and returns the state it was
  given: the parcel's status, its history and \<open>delivered_at\<close> (and everything else) are
  as before.
\<close>

theorem invalid_status_rejected:
  assumes "map_of (parcels s) tn = Some r"
    and "body ''status'' = Some (JStr st)"
    and "st \<notin> set STATUSES_values"
  shows "update_status s tn body t1 t2 t3 =
           ((400, JObj [(''success'', JBool False), (''message'', JStr ''Invalid status'')]), s)"
  using assms by (simp add: update_status_def includes_status_def)

theorem invalid_status_rejected_witness:
  "map_of (parcels one_parcel) ''YDN1000'' = Some 0
   \<and> ''shipped'' \<notin> set STATUSES_values
   \<and> update_status one_parcel ''YDN1000'' [''status'' \<mapsto> JStr ''shipped''] ''t4'' ''t5'' ''t6'' =
       ((400, JObj [(''success'', JBool False), (''message'', JStr ''Invalid status'')]), one_parcel)"
  using invalid_status_rejected [of one_parcel "''YDN1000''" 0 "[''status'' \<mapsto> JStr ''shipped'']"
      "''shipped''" "''t4''" "''t5''" "''t6''"]
  by (simp add: one_parcel_eq STATUSES_values_def status_defs)

text \<open>
  Claim C1, as stated, fails: a second \<open>DELIVERED\<close> transition changes \<open>delivered_at\<close>.
  The parcel is delivered by hand when the clock reads \<open>t5\<close> and again when it reads
  \<open>t8\<close>; \<open>delivered_at\<close> is \<open>t5\<close> after the first update and \<open>t8\<close> after the second.
\<close>

theorem delivered_at_overwritten_counterexample:
  "map_option delivered_at (stored delivered_once ''YDN1000'') = Some (Some ''t5'')
   \<and> map_option delivered_at (stored delivered_twice ''YDN1000'') = Some (Some ''t8'')
   \<and> map_option delivered_at (stored delivered_twice ''YDN1000'')
       \<noteq> map_option delivered_at (stored delivered_once ''YDN1000'')"
  by (simp add: stored_delivered_once stored_delivered_twice status_defs)

text \<open>
  Claim C1, amended. For a parcel stored in a reachable state: every \<open>DELIVERED\<close>
  transition, by the manual update or by a tick, sets \<open>delivered_at\<close> to the clock
  reading of that transition, whether or not it was set before (so a second
  \<open>DELIVERED\<close> transition replaces the earlier value); a transition to any other
  status leaves \<open>delivered_at\<close> as it was; and no operation clears a \<open>delivered_at\<close>
  that is set.
\<close>

theorem delivered_at_set_by_each_delivery:
  assumes "reachable s" and "stored s tn = Some p"
  shows "(includes_status (body ''status'') = Some st \<longrightarrow>
            (\<exists>p'. stored (snd (update_status s tn body t1 t2 t3)) tn = Some p' \<and>
                  delivered_at p' = (if st = DELIVERED then Some t2 else delivered_at p)))
       \<and> (i < length (intervals s) \<and> \<not> cleared (intervals s ! i) \<and>
            i_tracking_number (intervals s ! i) = tn \<and>
            currentIndex (intervals s ! i) < length (statusFlow (intervals s ! i)) \<longrightarrow>
            (\<exists>s' p'. tick s i (u1, u2, u3) = Some s' \<and> stored s' tn = Some p' \<and>
                  delivered_at p' =
                    (if statusFlow (intervals s ! i) ! currentIndex (intervals s ! i) = DELIVERED
                     then Some u2 else delivered_at p)))
       \<and> (step s s'' \<and> delivered_at p \<noteq> None \<longrightarrow>
            (\<exists>p'. stored s'' tn = Some p' \<and> delivered_at p' \<noteq> None))"
proof -
  from assms(1) have wf: "well_formed s" by (rule reachable_well_formed)
  from this assms(2) obtain r where m: "map_of (parcels s) tn = Some r"
    and r: "r < length (heap s)" and p: "p = heap s ! r"
    by (rule stored_ref)
  have manual: "\<exists>p'. stored (snd (update_status s tn body t1 t2 t3)) tn = Some p' \<and>
                  delivered_at p' = (if st = DELIVERED then Some t2 else delivered_at p)"
    if "includes_status (body ''status'') = Some st"
    using stored_update_status [where body = body, OF wf assms(2) that] by simp
  have ticked: "\<exists>s' p'. tick s i (u1, u2, u3) = Some s' \<and> stored s' tn = Some p' \<and>
                  delivered_at p' =
                    (if statusFlow (intervals s ! i) ! currentIndex (intervals s ! i) = DELIVERED
                     then Some u2 else delivered_at p)"
    if i: "i < length (intervals s)" and c: "\<not> cleared (intervals s ! i)"
      and tn: "i_tracking_number (intervals s ! i) = tn"
      and k: "currentIndex (intervals s ! i) < length (statusFlow (intervals s ! i))"
  proof -
    from wf i c have run: "running s i tn (i_parcel (intervals s ! i))
           (statusFlow (intervals s ! i)) (currentIndex (intervals s ! i))"
      unfolding tn [symmetric] by (rule running_scheduled)
    then have "i_parcel (intervals s ! i) = r" using m by (simp add: running_def)
    with stored_tick [OF run k, of u1 u2 u3] tick_applies(1) [OF run k, of u1 u2 u3] p
    show ?thesis by simp
  qed
  have kept: "\<exists>p'. stored s'' tn = Some p' \<and> delivered_at p' \<noteq> None"
    if "step s s''" and "delivered_at p \<noteq> None"
  proof -
    from that(1) wf m have "map_of (parcels s'') tn = Some r" by (rule step_keeps_binding)
    then have "stored s'' tn = Some (heap s'' ! r)" by (simp add: stored_def)
    moreover from that r p have "delivered_at (heap s'' ! r) \<noteq> None"
      by (simp add: step_delivered_kept)
    ultimately show ?thesis by simp
  qed
  from manual ticked kept show ?thesis by blast
qed

theorem delivered_at_set_by_each_delivery_witness:
  "reachable simulating
   \<and> map_option delivered_at (stored simulating ''YDN1000'') = Some (Some ''t5'')
   \<and> includes_status ([''status'' \<mapsto> JStr ''delivered''] ''status'') = Some DELIVERED
   \<and> (\<exists>p'. stored (snd (update_status simulating ''YDN1000'' [''status'' \<mapsto> JStr ''delivered'']
                ''t7'' ''t8'' ''t9'')) ''YDN1000'' = Some p' \<and> delivered_at p' = Some ''t8'')
   \<and> 0 < length (intervals simulating) \<and> \<not> cleared (intervals simulating ! 0)
   \<and> i_tracking_number (intervals simulating ! 0) = ''YDN1000''
   \<and> currentIndex (intervals simulating ! 0) < length (statusFlow (intervals simulating ! 0))
   \<and> (\<exists>s' p'. tick simulating 0 (''t7'', ''t8'', ''t9'') = Some s' \<and> stored s' ''YDN1000'' = Some p'
         \<and> delivered_at p' = Some ''t5'')
   \<and> step simulating (snd (update_status simulating ''YDN1000'' [''status'' \<mapsto> JStr ''collected'']
                ''t7'' ''t8'' ''t9''))
   \<and> (\<exists>p'. stored (snd (update_status simulating ''YDN1000'' [''status'' \<mapsto> JStr ''collected'']
                ''t7'' ''t8'' ''t9'')) ''YDN1000'' = Some p' \<and> delivered_at p' \<noteq> None)"
proof -
  have st: "stored simulating ''YDN1000'' =
     Some (apply_status ''delivered'' ''t4'' (Some (JStr ''Status updated to delivered'')) ''t5''
            (new_parcel ''YDN1000'' order_body ''t1'' ''t2''))"
    by (simp add: simulating_def stored_delivered_once)
  have step: "step simulating (snd (update_status simulating ''YDN1000'' [''status'' \<mapsto> JStr ''collected'']
                ''t7'' ''t8'' ''t9''))"
    by (rule step_update)
  from delivered_at_set_by_each_delivery [OF reachable_simulating st,
      of "[''status'' \<mapsto> JStr ''delivered'']" DELIVERED "''t7''" "''t8''" "''t9''" 0
         "''t7''" "''t8''" "''t9''"
         "snd (update_status simulating ''YDN1000'' [''status'' \<mapsto> JStr ''collected''] ''t7'' ''t8'' ''t9'')"]
  show ?thesis
    using step
    by (simp add: reachable_simulating st intervals_simulating includes_status_examples
        status_defs default_flow_def)
qed

section \<open>Invariants of the store\<close>

text \<open>
  Claim C3. In every state reached from the initial one by creations, manual updates,
  simulation starts and ticks, in any order, every stored parcel has a non-empty history
  and its status is the status of the last history entry.
\<close>

theorem status_is_last_history_status:
  assumes "reachable s" and "stored s tn = Some p"
  shows "status_history p \<noteq> [] \<and> status p = h_status (last (status_history p))"
proof -
  from assms(1) have "well_formed s" by (rule reachable_well_formed)
  from this assms(2) obtain r where "r < length (heap s)" and "p = heap s ! r"
    by (rule stored_ref)
  then have "p \<in> set (heap s)" by simp
  with reachable_consistent [OF assms(1)] show ?thesis by blast
qed

theorem status_is_last_history_status_witness:
  "\<exists>p. reachable collected \<and> stored collected ''YDN1000'' = Some p \<and> status p = COLLECTED
     \<and> map h_status (status_history p) = [PENDING_PICKUP, COLLECTED]
     \<and> status_history p \<noteq> [] \<and> status p = h_status (last (status_history p))"
  using status_is_last_history_status [OF reachable_collected stored_collected]
  by (simp add: reachable_collected stored_collected status_defs new_parcel_def)

text \<open>
  Claim C8. In every reachable state the history of every stored parcel is non-empty
  and its first entry has status \<open>PENDING_PICKUP\<close>; and every operation keeps the
  parcel stored under its tracking number with a history that has the old history as
  a prefix: entries are only added at the end, never removed, changed or reordered.
\<close>

theorem history_append_only:
  assumes "reachable s" and "stored s tn = Some p"
  shows "status_history p \<noteq> [] \<and> h_status (hd (status_history p)) = PENDING_PICKUP
         \<and> (\<forall>s'. step s s' \<longrightarrow>
               (\<exists>p'. stored s' tn = Some p' \<and> prefix (status_history p) (status_history p')))"
proof -
  from assms(1) have wf: "well_formed s" by (rule reachable_well_formed)
  from this assms(2) obtain r where m: "map_of (parcels s) tn = Some r"
    and r: "r < length (heap s)" and p: "p = heap s ! r"
    by (rule stored_ref)
  from r p have "p \<in> set (heap s)" by simp
  with reachable_rooted [OF assms(1)]
  have "status_history p \<noteq> [] \<and> h_status (hd (status_history p)) = PENDING_PICKUP" by blast
  moreover have "\<exists>p'. stored s' tn = Some p' \<and> prefix (status_history p) (status_history p')"
    if "step s s'" for s'
  proof -
    from that wf m have "map_of (parcels s') tn = Some r" by (rule step_keeps_binding)
    then have "stored s' tn = Some (heap s' ! r)" by (simp add: stored_def)
    moreover from that r have "prefix (status_history (heap s ! r)) (status_history (heap s' ! r))"
      by (rule step_history_prefix)
    ultimately show ?thesis using p by simp
  qed
  ultimately show ?thesis by blast
qed

theorem history_append_only_witness:
  "\<exists>p p'. reachable one_parcel \<and> stored one_parcel ''YDN1000'' = Some p
     \<and> map h_status (status_history p) = [PENDING_PICKUP]
     \<and> step one_parcel collected \<and> stored collected ''YDN1000'' = Some p'
     \<and> map h_status (status_history p') = [PENDING_PICKUP, COLLECTED]
     \<and> prefix (status_history p) (status_history p')"
proof -
  have st: "step one_parcel collected" unfolding collected_def by (rule step_update)
  from history_append_only [OF reachable_one_parcel stored_one_parcel] st
  have "\<exists>p'. stored collected ''YDN1000'' = Some p'
          \<and> prefix (status_history (new_parcel ''YDN1000'' order_body ''t1'' ''t2'')) (status_history p')"
    by blast
  then have "prefix (status_history (new_parcel ''YDN1000'' order_body ''t1'' ''t2''))
     (status_history (apply_status ''collected'' ''t4'' (Some (JStr ''Status updated to collected'')) ''t5''
            (new_parcel ''YDN1000'' order_body ''t1'' ''t2'')))"
    by (simp add: stored_collected)
  with st show ?thesis
    by (simp add: reachable_one_parcel stored_one_parcel stored_collected status_defs new_parcel_def)
qed

section \<open>Simulation runs\<close>






end
